theory Spec2Isabelle
  imports Complex_Main "HOL-Library.Option_ord" "HOL-Library.Multiset"
begin

section \<open>Batch aggregation of card transactions: the data\<close>

text \<open>
  The script \<^verbatim>\<open>batch_aggregation.py\<close> reads card transactions into a data frame, adds
  rolling counts and averages with one SQL query, keeps the latest row of every card and
  writes it to an online feature store. A data frame is modelled as the list of its rows.
  Every column of \<^verbatim>\<open>define_schema\<close> is nullable (\<^verbatim>\<open>StructField(_, _, True)\<close>), so every
  field is an option and \<open>None\<close> is SQL's NULL. A timestamp is the number of microseconds
  since the epoch, the resolution of the engine's \<^verbatim>\<open>TimestampType\<close>. A \<^verbatim>\<open>DoubleType\<close>
  amount is an exact rational: the binary rounding of doubles is outside this model.
\<close>

record transaction =
  tid :: "string option"
  datetime :: "int option"
  cc_num :: "int option"
  amount :: "rat option"
  fraud_label :: "string option"

text \<open>The inner \<^verbatim>\<open>SELECT *, COUNT(*) OVER w1 ..., AVG(amount) OVER w2 ...\<close> adds four columns.\<close>

record windowed = transaction +
  num_trans_last_10m :: int
  avg_amt_last_10m :: "rat option"
  num_trans_last_1w :: int
  avg_amt_last_1w :: "rat option"

text \<open>The outer \<^verbatim>\<open>SELECT *, ... AS amt_ratio1, ... AS amt_ratio2, ... AS count_ratio\<close> adds three.\<close>

record aggregated = windowed +
  amt_ratio1 :: "rat option"
  amt_ratio2 :: "rat option"
  count_ratio :: "rat option"

text \<open>A row of \<^verbatim>\<open>select('cc_num', 'num_trans_last_1w', 'avg_amt_last_1w')\<close>.\<close>

type_synonym sliced_row = "int option \<times> int \<times> rat option"

text \<open>An entry of a feature-store record: \<^verbatim>\<open>{'ValueAsString': ..., 'FeatureName': ...}\<close>.\<close>

record feature =
  ValueAsString :: string
  FeatureName :: string

datatype error = TypeError | AssertionError

section \<open>The SQL of \<^verbatim>\<open>aggregate_features\<close>\<close>

definition INTERVAL_10_MINUTE :: int where
  "INTERVAL_10_MINUTE = 600000000"

definition INTERVAL_1_WEEK :: int where
  "INTERVAL_1_WEEK = 604800000000"

text \<open>
  \<^verbatim>\<open>ORDER BY cast(datetime AS timestamp) RANGE INTERVAL w PRECEDING\<close>: the column is a
  timestamp already, and the frame of the current row runs from its order value minus
  \<open>w\<close> to its order value, both ends included, so rows with the same timestamp are in
  each other's frames. Rows whose order value is NULL are peers of each other and of no
  other row.
\<close>

fun range_preceding :: "int \<Rightarrow> int option \<Rightarrow> int option \<Rightarrow> bool" where
  "range_preceding w (Some t) (Some u) = (t - w \<le> u \<and> u \<le> t)"
| "range_preceding w None None = True"
| "range_preceding w (Some t) None = False"
| "range_preceding w None (Some u) = False"

text \<open>
  \<^verbatim>\<open>PARTITION BY cc_num\<close> puts rows with equal card numbers together; the rows without a
  card number form one partition.
\<close>

definition window_frame ::
  "int \<Rightarrow> 'a transaction_scheme list \<Rightarrow> 'a transaction_scheme \<Rightarrow> 'a transaction_scheme list" where
  "window_frame w df r =
     filter (\<lambda>x. cc_num x = cc_num r \<and> range_preceding w (datetime r) (datetime x)) df"

text \<open>\<^verbatim>\<open>COUNT(*)\<close> counts the rows of the frame.\<close>

definition sql_count :: "'a list \<Rightarrow> int" where
  "sql_count rows = int (length rows)"

text \<open>\<^verbatim>\<open>AVG(amount)\<close> averages the amounts that are not NULL, and is NULL when there is none.\<close>

definition sql_avg :: "rat option list \<Rightarrow> rat option" where
  "sql_avg vs =
     (let xs = List.map_filter id vs
      in if xs = [] then None else Some (sum_list xs / of_nat (length xs)))"

text \<open>
  The engine's division returns NULL when an operand is NULL and when the divisor is
  zero; it never raises and never returns an infinity or a NaN for a zero divisor.
\<close>

fun sql_div :: "rat option \<Rightarrow> rat option \<Rightarrow> rat option" where
  "sql_div (Some x) (Some y) = (if y = 0 then None else Some (x / y))"
| "sql_div None b = None"
| "sql_div (Some x) None = None"

definition windowed_row :: "transaction list \<Rightarrow> transaction \<Rightarrow> windowed" where
  "windowed_row df r =
     \<lparr>tid = tid r, datetime = datetime r, cc_num = cc_num r, amount = amount r,
      fraud_label = fraud_label r,
      num_trans_last_10m = sql_count (window_frame INTERVAL_10_MINUTE df r),
      avg_amt_last_10m = sql_avg (map amount (window_frame INTERVAL_10_MINUTE df r)),
      num_trans_last_1w = sql_count (window_frame INTERVAL_1_WEEK df r),
      avg_amt_last_1w = sql_avg (map amount (window_frame INTERVAL_1_WEEK df r))\<rparr>"

text \<open>Dividing two \<^verbatim>\<open>COUNT\<close>s divides them as doubles.\<close>

definition ratio_row :: "windowed \<Rightarrow> aggregated" where
  "ratio_row r =
     \<lparr>tid = tid r, datetime = datetime r, cc_num = cc_num r, amount = amount r,
      fraud_label = fraud_label r,
      num_trans_last_10m = num_trans_last_10m r, avg_amt_last_10m = avg_amt_last_10m r,
      num_trans_last_1w = num_trans_last_1w r, avg_amt_last_1w = avg_amt_last_1w r,
      amt_ratio1 = sql_div (avg_amt_last_10m r) (avg_amt_last_1w r),
      amt_ratio2 = sql_div (amount r) (avg_amt_last_1w r),
      count_ratio = sql_div (Some (of_int (num_trans_last_10m r)))
                            (Some (of_int (num_trans_last_1w r)))\<rparr>"

text \<open>
  The query has no \<^verbatim>\<open>WHERE\<close>: it returns one row for each row of \<^verbatim>\<open>transactions_df\<close>. The
  engine returns them in an order of its own; the model keeps the order of the input.
\<close>

definition aggregate_features :: "transaction list \<Rightarrow> aggregated list" where
  "aggregate_features transactions_df =
     map (\<lambda>r. ratio_row (windowed_row transactions_df r)) transactions_df"

text \<open>The columns of the input inside an output row.\<close>

definition transaction_of :: "'a transaction_scheme \<Rightarrow> transaction" where
  "transaction_of r =
     \<lparr>tid = tid r, datetime = datetime r, cc_num = cc_num r, amount = amount r,
      fraud_label = fraud_label r\<rparr>"

section \<open>\<^verbatim>\<open>group_by_card_number\<close>\<close>

text \<open>
  \<^verbatim>\<open>dense_rank().over(Window.partitionBy('cc_num').orderBy(desc('datetime')))\<close>: one plus the
  number of distinct timestamps of the partition that come before the row's own in
  descending order. Descending order puts NULL last, which is the order of
  \<open>int option\<close> read downwards (\<open>None\<close> is its least element).
\<close>

definition dense_rank :: "'a transaction_scheme list \<Rightarrow> 'a transaction_scheme \<Rightarrow> nat" where
  "dense_rank df r =
     Suc (length (remdups (filter (\<lambda>d. datetime r < d)
                             (map datetime (filter (\<lambda>x. cc_num x = cc_num r) df)))))"

text \<open>The three columns that \<^verbatim>\<open>select\<close> keeps.\<close>

definition slice :: "aggregated \<Rightarrow> sliced_row" where
  "slice r = (cc_num r, num_trans_last_1w r, avg_amt_last_1w r)"

text \<open>
  \<^verbatim>\<open>filter(sorted_df.rank == 1)\<close> keeps every row of rank one, in the model in the order
  of the input.
\<close>

definition group_by_card_number :: "aggregated list \<Rightarrow> sliced_row list" where
  "group_by_card_number aggregated_features =
     map slice (filter (\<lambda>r. dense_rank aggregated_features r = 1) aggregated_features)"

section \<open>\<^verbatim>\<open>transform_row\<close>\<close>

text \<open>Python's \<^verbatim>\<open>str\<close> of an \<^verbatim>\<open>int\<close>.\<close>

fun digits :: "nat \<Rightarrow> string" where
  "digits n =
     (if n < 10 then [''0123456789'' ! n]
      else digits (n div 10) @ [''0123456789'' ! (n mod 10)])"

declare digits.simps [simp del]

definition str_int :: "int \<Rightarrow> string" where
  "str_int i = (if i < 0 then CHR ''-'' # digits (nat (- i)) else digits (nat i))"

text \<open>\<^verbatim>\<open>if cc_num:\<close> is false for \<^verbatim>\<open>None\<close> and for \<^verbatim>\<open>0\<close>.\<close>

fun truthy :: "int option \<Rightarrow> bool" where
  "truthy None = False"
| "truthy (Some k) = (k \<noteq> 0)"

text \<open>
  The three entries of a record. \<open>str_round2\<close> stands for \<^verbatim>\<open>str(round(x, 2))\<close> on a
  Python float, whose digits depend on the binary value; the functions below take it as a
  parameter.
\<close>

definition new_record :: "(rat \<Rightarrow> string) \<Rightarrow> int \<Rightarrow> int \<Rightarrow> rat \<Rightarrow> feature list" where
  "new_record str_round2 k n a =
     [\<lparr>ValueAsString = str_int k, FeatureName = ''cc_num''\<rparr>,
      \<lparr>ValueAsString = str_int n, FeatureName = ''num_trans_last_1w''\<rparr>,
      \<lparr>ValueAsString = str_round2 a, FeatureName = ''avg_amt_last_1w''\<rparr>]"

text \<open>
  The loop over the collected rows. \<^verbatim>\<open>round(None, 2)\<close> raises \<^verbatim>\<open>TypeError\<close>, which ends
  the function without a result.
\<close>

fun transform_row :: "(rat \<Rightarrow> string) \<Rightarrow> sliced_row list \<Rightarrow> error + feature list list" where
  "transform_row str_round2 [] = Inr []"
| "transform_row str_round2 ((cc, n, avg) # rows) =
     (if truthy cc then
        (case avg of
           None \<Rightarrow> Inl TypeError
         | Some a \<Rightarrow>
             (case transform_row str_round2 rows of
                Inl e \<Rightarrow> Inl e
              | Inr records \<Rightarrow> Inr (new_record str_round2 (the cc) n a # records)))
      else transform_row str_round2 rows)"

section \<open>\<^verbatim>\<open>write_to_feature_store\<close>\<close>

definition TOTAL_UNIQUE_USERS :: int where
  "TOTAL_UNIQUE_USERS = 10000"

definition FEATURE_GROUP :: string where
  "FEATURE_GROUP = ''cc-agg-batch-fg''"

text \<open>
  What the loop reads from outside: the clock at its \<open>i\<close>-th pass, and the HTTP status
  of the answer of the store to the \<open>i\<close>-th \<^verbatim>\<open>put_record\<close>, which may depend on the
  feature group and on the record. A client call that raises instead of answering ends
  the job in the client and is no part of this model.
\<close>

record world =
  time_time :: "nat \<Rightarrow> rat"
  put_record :: "nat \<Rightarrow> string \<Rightarrow> feature list \<Rightarrow> int"

text \<open>Python's \<^verbatim>\<open>round(x)\<close>: the nearest integer, a half going to the even neighbour.\<close>

definition py_round :: "rat \<Rightarrow> int" where
  "py_round x =
     (let f = \<lfloor>x\<rfloor>; d = x - of_int f
      in if d < 1 / 2 then f else if 1 / 2 < d then f + 1 else if even f then f else f + 1)"

text \<open>
  The entry \<^verbatim>\<open>event_time_feature\<close> of the \<open>i\<close>-th pass:
  \<^verbatim>\<open>str(int(round(time.time())))\<close> under the name \<^verbatim>\<open>trans_time\<close>.
\<close>

definition event_time_feature :: "world \<Rightarrow> nat \<Rightarrow> feature" where
  "event_time_feature w i =
     \<lparr>ValueAsString = str_int (py_round (time_time w i)), FeatureName = ''trans_time''\<rparr>"

text \<open>
  The counters of the loop, and the records handed to \<^verbatim>\<open>put_record\<close> so far. Each pass
  appends the entry to the record, hands the record to the store and counts the answer.
  \<^verbatim>\<open>record.append\<close> changes the list in place; \<^verbatim>\<open>transform_row\<close> makes a new list for
  every record, so no other record changes with it.
\<close>

record sink =
  success :: int
  fail :: int
  sent :: "feature list list"

fun put_all :: "world \<Rightarrow> nat \<Rightarrow> feature list list \<Rightarrow> sink \<Rightarrow> sink" where
  "put_all w i [] s = s"
| "put_all w i (record # records) s =
     (let record' = record @ [event_time_feature w i];
          response = put_record w i FEATURE_GROUP record'
      in put_all w (Suc i) records
           (if response = 200
            then s\<lparr>success := success s + 1, sent := sent s @ [record']\<rparr>
            else s\<lparr>fail := fail s + 1, sent := sent s @ [record']\<rparr>))"

text \<open>The two \<^verbatim>\<open>assert\<close>s come after the loop.\<close>

definition write_to_feature_store :: "world \<Rightarrow> feature list list \<Rightarrow> sink \<times> (error + unit)" where
  "write_to_feature_store w records =
     (let s = put_all w 0 records \<lparr>success = 0, fail = 0, sent = []\<rparr>
      in (s, if success s \<noteq> TOTAL_UNIQUE_USERS then Inl AssertionError
             else if fail s \<noteq> 0 then Inl AssertionError
             else Inr ()))"


section \<open>\<^verbatim>\<open>run_spark_job\<close>\<close>

text \<open>
  The job from the data frame onwards; \<^verbatim>\<open>write_to_s3\<close> saves the aggregated rows and
  changes nothing that the later steps read.
\<close>

definition run_spark_job ::
  "world \<Rightarrow> (rat \<Rightarrow> string) \<Rightarrow> transaction list \<Rightarrow> sink \<times> (error + unit)" where
  "run_spark_job w str_round2 transactions_df =
     (let aggregated_features = aggregate_features transactions_df;
          sliced_df = group_by_card_number aggregated_features
      in case transform_row str_round2 sliced_df of
           Inl e \<Rightarrow> (\<lparr>success = 0, fail = 0, sent = []\<rparr>, Inl e)
         | Inr records \<Rightarrow> write_to_feature_store w records)"

section \<open>The words of the specification\<close>

text \<open>
  The window of the specification, as positions of the input: the records of the same
  card whose time lies between the time of record \<open>i\<close> minus \<open>w\<close> and the time of
  record \<open>i\<close>, both included.
\<close>

definition spec_window :: "int \<Rightarrow> transaction list \<Rightarrow> nat \<Rightarrow> nat set" where
  "spec_window w df i =
     {j. j < length df \<and> cc_num (df ! j) = cc_num (df ! i)
         \<and> (\<exists>t u. datetime (df ! i) = Some t \<and> datetime (df ! j) = Some u
                  \<and> t - w \<le> u \<and> u \<le> t)}"

text \<open>
  A record has the maximum event time of its card: no record of the card is later. A
  record without a time is earlier than every record with one, as in the descending
  order of the ranking.
\<close>

definition latest :: "'a transaction_scheme list \<Rightarrow> 'a transaction_scheme \<Rightarrow> bool" where
  "latest df r = (\<forall>x\<in>set df. cc_num x = cc_num r \<longrightarrow> datetime x \<le> datetime r)"

definition rows_for_key :: "int option \<Rightarrow> sliced_row list \<Rightarrow> sliced_row list" where
  "rows_for_key k rows = filter (\<lambda>s. fst s = k) rows"

section \<open>Example inputs\<close>

text \<open>One card with payments of 10, 20 and 30 at 10:00, 10:05 and 10:15.\<close>

definition example_partition :: "transaction list" where
  "example_partition =
     [\<lparr>tid = Some ''t1'', datetime = Some 36000000000, cc_num = Some 4006080197832643,
       amount = Some 10, fraud_label = Some ''0''\<rparr>,
      \<lparr>tid = Some ''t2'', datetime = Some 36300000000, cc_num = Some 4006080197832643,
       amount = Some 20, fraud_label = Some ''0''\<rparr>,
      \<lparr>tid = Some ''t3'', datetime = Some 36900000000, cc_num = Some 4006080197832643,
       amount = Some 30, fraud_label = Some ''0''\<rparr>]"

text \<open>One card with two payments at the same time.\<close>

definition tied_transactions :: "transaction list" where
  "tied_transactions =
     [\<lparr>tid = Some ''t1'', datetime = Some 36000000000, cc_num = Some 7,
       amount = Some 10, fraud_label = Some ''0''\<rparr>,
      \<lparr>tid = Some ''t2'', datetime = Some 36000000000, cc_num = Some 7,
       amount = Some 20, fraud_label = Some ''0''\<rparr>]"

text \<open>One card with one payment of nothing.\<close>

definition zero_amount_transactions :: "transaction list" where
  "zero_amount_transactions =
     [\<lparr>tid = Some ''t1'', datetime = Some 36000000000, cc_num = Some 7,
       amount = Some 0, fraud_label = Some ''0''\<rparr>]"


text \<open>Latest rows of the cards 7, 0 and NULL; the last two have no average.\<close>

definition example_sliced_rows :: "sliced_row list" where
  "example_sliced_rows = [(Some 7, 1, Some 10), (Some 0, 5, None), (None, 2, None)]"

text \<open>A store that accepts every record, and a clock that stands still at 1619447229.5 seconds.\<close>

definition accepting_store :: world where
  "accepting_store = \<lparr>time_time = (\<lambda>i. 3238894459 / 2), put_record = (\<lambda>i g r. 200)\<rparr>"

text \<open>The record of the first of these rows.\<close>

definition example_records :: "feature list list" where
  "example_records =
     [[\<lparr>ValueAsString = ''7'', FeatureName = ''cc_num''\<rparr>,
       \<lparr>ValueAsString = ''1'', FeatureName = ''num_trans_last_1w''\<rparr>,
       \<lparr>ValueAsString = ''10.0'', FeatureName = ''avg_amt_last_1w''\<rparr>]]"


text \<open>
  The digits of \<^verbatim>\<open>str(round(x, 2))\<close> when the float is the decimal it prints and is below
  \<open>10\<^sup>1\<^sup>6\<close>: the value rounded to two places, without a trailing zero in the second.
\<close>

definition ideal_str_round2 :: "rat \<Rightarrow> string" where
  "ideal_str_round2 x =
     (let n = py_round (x * 100); m = nat \<bar>n\<bar>
      in (if n < 0 then ''-'' else [])
         @ digits (m div 100) @ ''.''
         @ (if m mod 10 = 0 then [''0123456789'' ! (m mod 100 div 10)]
            else [''0123456789'' ! (m mod 100 div 10), ''0123456789'' ! (m mod 10)]))"

section \<open>Rows of the query\<close>

lemma length_aggregate_features: "length (aggregate_features df) = length df"
  by (simp add: aggregate_features_def)

lemma aggregate_features_nth:
  "i < length df \<Longrightarrow> aggregate_features df ! i = ratio_row (windowed_row df (df ! i))"
  by (simp add: aggregate_features_def)

lemma in_aggregate_features:
  "r \<in> set (aggregate_features df) \<longleftrightarrow> (\<exists>x\<in>set df. r = ratio_row (windowed_row df x))"
  by (auto simp: aggregate_features_def)

lemma aggregated_fields:
  "tid (ratio_row (windowed_row df x)) = tid x"
  "datetime (ratio_row (windowed_row df x)) = datetime x"
  "cc_num (ratio_row (windowed_row df x)) = cc_num x"
  "amount (ratio_row (windowed_row df x)) = amount x"
  "fraud_label (ratio_row (windowed_row df x)) = fraud_label x"
  "num_trans_last_10m (ratio_row (windowed_row df x)) = sql_count (window_frame INTERVAL_10_MINUTE df x)"
  "avg_amt_last_10m (ratio_row (windowed_row df x)) = sql_avg (map amount (window_frame INTERVAL_10_MINUTE df x))"
  "num_trans_last_1w (ratio_row (windowed_row df x)) = sql_count (window_frame INTERVAL_1_WEEK df x)"
  "avg_amt_last_1w (ratio_row (windowed_row df x)) = sql_avg (map amount (window_frame INTERVAL_1_WEEK df x))"
  by (simp_all add: ratio_row_def windowed_row_def)

lemma ratio_fields:
  "amt_ratio1 (ratio_row r) = sql_div (avg_amt_last_10m r) (avg_amt_last_1w r)"
  "amt_ratio2 (ratio_row r) = sql_div (amount r) (avg_amt_last_1w r)"
  "count_ratio (ratio_row r) =
     sql_div (Some (of_int (num_trans_last_10m r))) (Some (of_int (num_trans_last_1w r)))"
  "num_trans_last_10m (ratio_row r) = num_trans_last_10m r"
  "avg_amt_last_10m (ratio_row r) = avg_amt_last_10m r"
  "num_trans_last_1w (ratio_row r) = num_trans_last_1w r"
  "avg_amt_last_1w (ratio_row r) = avg_amt_last_1w r"
  "amount (ratio_row r) = amount r"
  by (simp_all add: ratio_row_def)

lemma range_preceding_self: "0 \<le> w \<Longrightarrow> range_preceding w d d"
  by (cases d) simp_all

lemma range_preceding_mono:
  "w \<le> w' \<Longrightarrow> range_preceding w d e \<Longrightarrow> range_preceding w' d e"
  by (cases d; cases e) simp_all

lemma self_in_window_frame: "0 \<le> w \<Longrightarrow> x \<in> set df \<Longrightarrow> x \<in> set (window_frame w df x)"
  by (simp add: window_frame_def range_preceding_self)

lemma sql_count_positive: "x \<in> set rows \<Longrightarrow> 1 \<le> sql_count rows"
  by (cases rows) (simp_all add: sql_count_def)

lemma window_frame_mono:
  assumes "w \<le> w'"
  shows "sql_count (window_frame w df x) \<le> sql_count (window_frame w' df x)"
proof -
  have "window_frame w df x =
        filter (\<lambda>y. range_preceding w (datetime x) (datetime y)) (window_frame w' df x)"
    using assms by (auto simp: window_frame_def intro: filter_cong dest: range_preceding_mono)
  then show ?thesis
    by (simp add: sql_count_def)
qed

lemma window_counts:
  assumes "x \<in> set df"
  shows "1 \<le> sql_count (window_frame INTERVAL_10_MINUTE df x)"
    and "1 \<le> sql_count (window_frame INTERVAL_1_WEEK df x)"
    and "sql_count (window_frame INTERVAL_10_MINUTE df x)
         \<le> sql_count (window_frame INTERVAL_1_WEEK df x)"
proof -
  show "1 \<le> sql_count (window_frame INTERVAL_10_MINUTE df x)"
    by (rule sql_count_positive [OF self_in_window_frame [OF _ assms]])
       (simp add: INTERVAL_10_MINUTE_def)
  show "1 \<le> sql_count (window_frame INTERVAL_1_WEEK df x)"
    by (rule sql_count_positive [OF self_in_window_frame [OF _ assms]])
       (simp add: INTERVAL_1_WEEK_def)
  show "sql_count (window_frame INTERVAL_10_MINUTE df x)
        \<le> sql_count (window_frame INTERVAL_1_WEEK df x)"
    by (rule window_frame_mono) (simp add: INTERVAL_10_MINUTE_def INTERVAL_1_WEEK_def)
qed

lemma transaction_of_aggregated: "transaction_of (ratio_row (windowed_row df x)) = x"
  by (simp add: transaction_of_def aggregated_fields)

section \<open>Frames and the windows of the specification\<close>

lemma range_preceding_Some:
  "range_preceding w (Some t) d \<longleftrightarrow> (\<exists>u. d = Some u \<and> t - w \<le> u \<and> u \<le> t)"
  by (cases d) simp_all

text \<open>The frame of a row with a timestamp, through the positions of its rows.\<close>

lemma window_frame_positions:
  assumes "i < length df" "datetime (df ! i) = Some t"
  shows "\<exists>js. window_frame w df (df ! i) = map (nth df) js \<and> distinct js
              \<and> set js = spec_window w df i"
proof -
  let ?P = "\<lambda>x. cc_num x = cc_num (df ! i) \<and> range_preceding w (datetime (df ! i)) (datetime x)"
  let ?js = "filter (\<lambda>j. ?P (df ! j)) [0..<length df]"
  have "filter ?P df = filter ?P (map (nth df) [0..<length df])"
    by (simp add: map_nth)
  also have "\<dots> = map (nth df) ?js"
    by (simp add: filter_map comp_def)
  finally have "window_frame w df (df ! i) = map (nth df) ?js"
    by (simp add: window_frame_def)
  moreover have "distinct ?js"
    by simp
  moreover have "set ?js = spec_window w df i"
    using assms by (auto simp: spec_window_def range_preceding_Some)
  ultimately show ?thesis
    by blast
qed

lemma map_filter_id_Some: "List.map_filter id (map (\<lambda>j. Some (a j)) js) = map a js"
  by (induction js) (simp_all add: List.map_filter_simps)

lemma window_count_and_mean:
  assumes i: "i < length df" and t: "datetime (df ! i) = Some t" and w: "0 \<le> w"
    and a: "\<forall>j\<in>spec_window w df i. amount (df ! j) = Some (a j)"
  shows "sql_count (window_frame w df (df ! i)) = int (card (spec_window w df i))"
    and "sql_avg (map amount (window_frame w df (df ! i)))
         = Some ((\<Sum>j\<in>spec_window w df i. a j) / of_nat (card (spec_window w df i)))"
proof -
  from window_frame_positions [OF i t] obtain js where
    frame: "window_frame w df (df ! i) = map (nth df) js" and d: "distinct js"
    and s: "set js = spec_window w df i"
    by blast
  have len: "length js = card (spec_window w df i)"
    using d s by (metis distinct_card)
  show "sql_count (window_frame w df (df ! i)) = int (card (spec_window w df i))"
    by (simp add: frame sql_count_def len)
  have "i \<in> spec_window w df i"
    using i t w by (simp add: spec_window_def)
  then have ne: "js \<noteq> []"
    using s by auto
  have "map amount (window_frame w df (df ! i)) = map (\<lambda>j. Some (a j)) js"
    using a s by (simp add: frame)
  then have "List.map_filter id (map amount (window_frame w df (df ! i))) = map a js"
    by (simp add: map_filter_id_Some)
  moreover have "sum_list (map a js) = (\<Sum>j\<in>spec_window w df i. a j)"
    using d s by (metis sum_list_distinct_conv_sum_set)
  ultimately show "sql_avg (map amount (window_frame w df (df ! i)))
         = Some ((\<Sum>j\<in>spec_window w df i. a j) / of_nat (card (spec_window w df i)))"
    using ne by (simp add: sql_avg_def len)
qed

lemma spec_window_mono: "w \<le> w' \<Longrightarrow> spec_window w df i \<subseteq> spec_window w' df i"
  by (auto simp: spec_window_def)

lemma spec_window_filter:
  "spec_window w df i =
     set (filter (\<lambda>j. cc_num (df ! j) = cc_num (df ! i) \<and> datetime (df ! i) \<noteq> None
                        \<and> range_preceding w (datetime (df ! i)) (datetime (df ! j)))
                 [0..<length df])"
  by (auto simp: spec_window_def range_preceding_Some)

lemma example_spec_window_short: "spec_window INTERVAL_10_MINUTE example_partition 2 = {1, 2}"
  unfolding spec_window_filter by code_simp

lemma example_spec_window_long: "spec_window INTERVAL_1_WEEK example_partition 2 = {0, 1, 2}"
  unfolding spec_window_filter by code_simp

section \<open>The rows of rank one\<close>

lemma dense_rank_one: "dense_rank df r = 1 \<longleftrightarrow> latest df r"
proof -
  have "dense_rank df r = 1 \<longleftrightarrow>
        filter (\<lambda>d. datetime r < d) (map datetime (filter (\<lambda>x. cc_num x = cc_num r) df)) = []"
    by (simp add: dense_rank_def)
  also have "\<dots> \<longleftrightarrow> (\<forall>x\<in>set df. cc_num x = cc_num r \<longrightarrow> \<not> datetime r < datetime x)"
    by (auto simp: filter_empty_conv)
  also have "\<dots> \<longleftrightarrow> latest df r"
    by (simp add: latest_def not_less)
  finally show ?thesis .
qed

lemma group_by_card_number_filter:
  "group_by_card_number df = map slice (filter (latest df) df)"
  unfolding group_by_card_number_def dense_rank_one ..

lemma group_by_card_number_set:
  "set (group_by_card_number df) = slice ` {r \<in> set df. latest df r}"
  by (auto simp: group_by_card_number_filter)

lemma in_group_by_card_number:
  "s \<in> set (group_by_card_number df) \<longleftrightarrow> (\<exists>r\<in>set df. latest df r \<and> s = slice r)"
  by (auto simp: group_by_card_number_filter)

lemma partition_has_latest:
  assumes "x \<in> set df"
  shows "\<exists>r\<in>set df. cc_num r = cc_num x \<and> latest df r"
proof -
  let ?part = "{y \<in> set df. cc_num y = cc_num x}"
  have fin: "finite (datetime ` ?part)" and ne: "datetime ` ?part \<noteq> {}"
    using assms by auto
  from Max_in [OF fin ne] obtain r where r: "r \<in> ?part" and m: "datetime r = Max (datetime ` ?part)"
    by auto
  have "latest df r"
    unfolding latest_def
  proof (intro ballI impI)
    fix y assume "y \<in> set df" "cc_num y = cc_num r"
    then have "datetime y \<in> datetime ` ?part"
      using r by auto
    then show "datetime y \<le> datetime r"
      using fin m by simp
  qed
  with r show ?thesis
    by auto
qed

lemma keys_of_group_by_card_number:
  "fst ` set (group_by_card_number df) = cc_num ` set df"
proof
  show "fst ` set (group_by_card_number df) \<subseteq> cc_num ` set df"
    by (auto simp: group_by_card_number_set slice_def)
  show "cc_num ` set df \<subseteq> fst ` set (group_by_card_number df)"
  proof
    fix k assume "k \<in> cc_num ` set df"
    then obtain x where "x \<in> set df" "k = cc_num x"
      by auto
    with partition_has_latest [of x df] obtain r where
      "r \<in> set df" "cc_num r = k" "latest df r"
      by auto
    then have "slice r \<in> set (group_by_card_number df)" "fst (slice r) = k"
      by (auto simp: group_by_card_number_set slice_def)
    then show "k \<in> fst ` set (group_by_card_number df)"
      by force
  qed
qed

lemma rows_for_key_count:
  "length (rows_for_key k (group_by_card_number df))
   = length (filter (\<lambda>r. cc_num r = k \<and> latest df r) df)"
proof -
  have "rows_for_key k (group_by_card_number df)
        = map slice (filter (\<lambda>r. cc_num r = k) (filter (\<lambda>r. latest df r) df))"
    by (simp add: rows_for_key_def group_by_card_number_filter filter_map comp_def slice_def)
  also have "filter (\<lambda>r. cc_num r = k) (filter (\<lambda>r. latest df r) df)
             = filter (\<lambda>r. cc_num r = k \<and> latest df r) df"
    by (simp add: conj_commute)
  finally show ?thesis
    by simp
qed

lemma window_frame_cong:
  "cc_num x = cc_num y \<Longrightarrow> datetime x = datetime y \<Longrightarrow> window_frame w df x = window_frame w df y"
  by (simp add: window_frame_def)

lemma latest_rows_agree:
  assumes r: "r \<in> set (aggregate_features txs)" and r': "r' \<in> set (aggregate_features txs)"
    and l: "latest (aggregate_features txs) r" and l': "latest (aggregate_features txs) r'"
    and k: "cc_num r = cc_num r'"
  shows "slice r = slice r'"
proof -
  from r obtain x where x: "r = ratio_row (windowed_row txs x)"
    by (auto simp: in_aggregate_features)
  from r' obtain y where y: "r' = ratio_row (windowed_row txs y)"
    by (auto simp: in_aggregate_features)
  from l r' k have "datetime r' \<le> datetime r"
    by (simp add: latest_def)
  moreover from l' r k have "datetime r \<le> datetime r'"
    by (simp add: latest_def)
  ultimately have "datetime r = datetime r'"
    by simp
  with k have "cc_num x = cc_num y" "datetime x = datetime y"
    by (simp_all add: x y aggregated_fields)
  then have "window_frame INTERVAL_1_WEEK txs x = window_frame INTERVAL_1_WEEK txs y"
    by (rule window_frame_cong)
  then show ?thesis
    using \<open>cc_num x = cc_num y\<close> by (simp add: slice_def x y aggregated_fields)
qed

section \<open>Strings of integers, rounding, and the loop of the sink\<close>

lemma digits_nonempty: "digits n \<noteq> []"
  by (subst digits.simps) simp

lemma digit_zero_all: "\<forall>n\<in>{..<10::nat}. (''0123456789'' ! n = CHR ''0'') = (n = 0)"
  by code_simp

lemma digit_zero: "n < 10 \<Longrightarrow> ''0123456789'' ! n = CHR ''0'' \<longleftrightarrow> n = 0"
  using digit_zero_all by blast

lemma digits_zero: "digits n = ''0'' \<longleftrightarrow> n = 0"
proof (cases "n < 10")
  case True
  then show ?thesis
    by (subst digits.simps) (simp add: digit_zero)
next
  case False
  have "length (digits (n div 10) @ [''0123456789'' ! (n mod 10)]) \<noteq> length ''0''"
    using digits_nonempty [of "n div 10"] by (cases "digits (n div 10)") simp_all
  then have "digits (n div 10) @ [''0123456789'' ! (n mod 10)] \<noteq> ''0''"
    by metis
  with False show ?thesis
    by (subst digits.simps) simp
qed

lemma str_int_zero: "str_int k = ''0'' \<longleftrightarrow> k = 0"
  by (cases "k < 0") (simp_all add: str_int_def digits_zero)

lemma py_round_near: "\<bar>of_int (py_round x) - x\<bar> \<le> 1 / 2"
proof -
  have "of_int \<lfloor>x\<rfloor> \<le> x" "x < of_int \<lfloor>x\<rfloor> + 1"
    by linarith+
  then show ?thesis
    by (auto simp: py_round_def Let_def abs_le_iff)
qed

lemma put_all_sent:
  "sent (put_all w i records s)
   = sent s @ map (\<lambda>j. records ! j @ [event_time_feature w (i + j)]) [0..<length records]"
proof (induction records arbitrary: i s)
  case Nil
  then show ?case by simp
next
  case (Cons r records)
  have "[0..<length (r # records)] = 0 # map Suc [0..<length records]"
    by (simp add: upt_conv_Cons map_Suc_upt del: upt_Suc)
  then have "map (\<lambda>j. (r # records) ! j @ [event_time_feature w (i + j)]) [0..<length (r # records)]
        = (r @ [event_time_feature w i])
          # map (\<lambda>j. records ! j @ [event_time_feature w (Suc i + j)]) [0..<length records]"
    by (simp add: comp_def)
  then show ?case
    by (simp add: Cons.IH Let_def)
qed

lemma put_all_counts:
  "success (put_all w i records s) + fail (put_all w i records s)
   = success s + fail s + int (length records)"
  by (induction records arbitrary: i s) (simp_all add: Let_def)

lemma put_all_monotone:
  "success s \<le> success (put_all w i records s) \<and> fail s \<le> fail (put_all w i records s)"
proof (induction records arbitrary: i s)
  case Nil
  then show ?case by simp
next
  case (Cons r records)
  let ?s' = "if put_record w i FEATURE_GROUP (r @ [event_time_feature w i]) = 200
             then s\<lparr>success := success s + 1, sent := sent s @ [r @ [event_time_feature w i]]\<rparr>
             else s\<lparr>fail := fail s + 1, sent := sent s @ [r @ [event_time_feature w i]]\<rparr>"
  have "success s \<le> success ?s'" "fail s \<le> fail ?s'"
    by simp_all
  moreover have "put_all w i (r # records) s = put_all w (Suc i) records ?s'"
    by (simp add: Let_def)
  ultimately show ?case
    using Cons.IH [where i = "Suc i" and s = ?s'] by (simp only:) linarith
qed

lemma write_to_feature_store_sent:
  "sent (fst (write_to_feature_store w records))
   = map (\<lambda>j. records ! j @ [event_time_feature w j]) [0..<length records]"
  by (simp add: write_to_feature_store_def Let_def put_all_sent)

lemma write_to_feature_store_counts:
  "success (fst (write_to_feature_store w records))
   + fail (fst (write_to_feature_store w records)) = int (length records)"
  "0 \<le> success (fst (write_to_feature_store w records))"
  "0 \<le> fail (fst (write_to_feature_store w records))"
  using put_all_monotone [of "\<lparr>success = 0, fail = 0, sent = []\<rparr>" w 0 records]
  by (simp_all add: write_to_feature_store_def Let_def put_all_counts)


lemma example_floor: "\<lfloor>3238894459 / 2 :: rat\<rfloor> = 1619447229"
  by (rule floor_unique) simp_all

lemma example_round: "py_round (3238894459 / 2) = 1619447230"
  by (simp add: py_round_def Let_def example_floor)

lemma accepting_store_time:
  "event_time_feature accepting_store i
   = \<lparr>ValueAsString = ''1619447230'', FeatureName = ''trans_time''\<rparr>"
  by (simp add: event_time_feature_def accepting_store_def example_round str_int_def digits.simps)



section \<open>The records of \<^verbatim>\<open>transform_row\<close>\<close>

lemma transform_row_length:
  "transform_row f rows = Inr records \<Longrightarrow>
   length records = length (filter (\<lambda>row. truthy (fst row)) rows)"
proof (induction rows arbitrary: records)
  case Nil
  then show ?case by simp
next
  case (Cons row rows)
  obtain cc n avg where row: "row = (cc, n, avg)"
    by (cases row)
  from Cons.prems show ?case
    by (auto simp: row Cons.IH split: if_splits option.splits sum.splits)
qed

lemma transform_row_records:
  "transform_row f rows = Inr records \<Longrightarrow> rec \<in> set records \<Longrightarrow>
   \<exists>k n a. k \<noteq> 0 \<and> (Some k, n, Some a) \<in> set rows \<and> rec = new_record f k n a"
proof (induction rows arbitrary: records)
  case Nil
  then show ?case by simp
next
  case (Cons row rows)
  obtain cc n avg where row: "row = (cc, n, avg)"
    by (cases row)
  show ?case
  proof (cases "truthy cc")
    case False
    with Cons.prems have "transform_row f rows = Inr records"
      by (simp add: row)
    from Cons.IH [OF this Cons.prems(2)] show ?thesis
      by auto
  next
    case True
    then obtain k where k: "cc = Some k" "k \<noteq> 0"
      by (cases cc) simp_all
    from Cons.prems(1) True obtain a rest where a: "avg = Some a"
      and rest: "transform_row f rows = Inr rest"
      and records: "records = new_record f k n a # rest"
      by (auto simp: row k split: option.splits sum.splits)
    from Cons.prems(2) records consider "rec = new_record f k n a" | "rec \<in> set rest"
      by auto
    then show ?thesis
    proof cases
      case 1
      with k a show ?thesis
        by (auto simp: row)
    next
      case 2
      from Cons.IH [OF rest 2] show ?thesis
        by auto
    qed
  qed
qed

lemma zero_key_not_in_new_record:
  "k \<noteq> 0 \<Longrightarrow> \<lparr>ValueAsString = ''0'', FeatureName = ''cc_num''\<rparr> \<notin> set (new_record f k n a)"
  using str_int_zero [of k] by (auto simp: new_record_def)

lemma trans_time_not_in_new_record:
  "filter (\<lambda>x. FeatureName x = ''trans_time'') (new_record f k n a) = []"
  by (simp add: new_record_def)

lemma in_sent:
  "rec \<in> set (sent (fst (write_to_feature_store w records))) \<longleftrightarrow>
   (\<exists>j<length records. rec = records ! j @ [event_time_feature w j])"
  by (auto simp: write_to_feature_store_sent)

lemma sent_nth:
  "i < length records \<Longrightarrow>
   sent (fst (write_to_feature_store w records)) ! i = records ! i @ [event_time_feature w i]"
  by (simp add: write_to_feature_store_sent)






lemma transform_row_filter:
  "transform_row f rows = transform_row f (filter (\<lambda>row. truthy (fst row)) rows)"
proof (induction rows)
  case Nil
  then show ?case by simp
next
  case (Cons row rows)
  obtain cc n avg where row: "row = (cc, n, avg)"
    by (cases row)
  show ?case
    by (cases "truthy cc"; cases avg) (simp_all add: row Cons.IH [symmetric])
qed

lemma transform_row_returns:
  "(\<exists>records. transform_row f rows = Inr records)
   \<longleftrightarrow> filter (\<lambda>row. truthy (fst row) \<and> snd (snd row) = None) rows = []"
proof (induction rows)
  case Nil
  then show ?case by simp
next
  case (Cons row rows)
  obtain cc n avg where row: "row = (cc, n, avg)"
    by (cases row)
  show ?case
  proof (cases "truthy cc")
    case False
    then show ?thesis
      using Cons.IH by (simp add: row)
  next
    case True
    show ?thesis
    proof (cases avg)
      case None
      with True show ?thesis
        by (simp add: row)
    next
      case (Some a)
      with True Cons.IH show ?thesis
        by (cases "transform_row f rows") (simp_all add: row)
    qed
  qed
qed

lemma transform_row_error:
  "transform_row f rows = Inl e \<Longrightarrow> e = TypeError"
proof (induction rows)
  case Nil
  then show ?case by simp
next
  case (Cons row rows)
  obtain cc n avg where row: "row = (cc, n, avg)"
    by (cases row)
  from Cons show ?case
    by (auto simp: row split: if_splits option.splits sum.splits)
qed

section \<open>The windowed aggregator\<close>

text \<open>
  C8. Whatever the order of the transactions, the query returns one row for each of
  them and nothing else: as many rows as transactions, and the input columns of the
  rows are the transactions, each as often as it occurs in the input.
\<close>

theorem one_row_per_transaction:
  "length (aggregate_features df) = length df
   \<and> mset (map transaction_of (aggregate_features df)) = mset df"
  by (simp add: aggregate_features_def comp_def transaction_of_aggregated)

text \<open>
  C4. In every row of the query the count over ten minutes and the count over one week
  are at least one, and the first is at most the second.
\<close>

theorem window_counts_positive_and_nested:
  "\<forall>r\<in>set (aggregate_features df).
     1 \<le> num_trans_last_10m r \<and> 1 \<le> num_trans_last_1w r
     \<and> num_trans_last_10m r \<le> num_trans_last_1w r"
proof
  fix r
  assume "r \<in> set (aggregate_features df)"
  then obtain x where x: "x \<in> set df" and r: "r = ratio_row (windowed_row df x)"
    unfolding in_aggregate_features by blast
  from window_counts [OF x]
  show "1 \<le> num_trans_last_10m r \<and> 1 \<le> num_trans_last_1w r
     \<and> num_trans_last_10m r \<le> num_trans_last_1w r"
    by (simp add: r aggregated_fields)
qed

theorem window_counts_positive_and_nested_witness:
  "aggregate_features example_partition ! 2 \<in> set (aggregate_features example_partition)
   \<and> 1 \<le> num_trans_last_10m (aggregate_features example_partition ! 2)
   \<and> 1 \<le> num_trans_last_1w (aggregate_features example_partition ! 2)
   \<and> num_trans_last_10m (aggregate_features example_partition ! 2)
       \<le> num_trans_last_1w (aggregate_features example_partition ! 2)"
proof -
  have m: "aggregate_features example_partition ! 2 \<in> set (aggregate_features example_partition)"
    by (rule nth_mem) (simp add: length_aggregate_features example_partition_def)
  from window_counts_positive_and_nested [of example_partition] m show ?thesis
    by blast
qed

text \<open>
  C5. In every row of the query whose weekly average is a number other than zero, the
  first ratio is the ten-minute average divided by the weekly average, the second is the
  amount divided by the weekly average (each NULL when its numerator is NULL), and the
  third is the ten-minute count divided by the weekly count, which is never zero.
\<close>

theorem ratio_identities:
  "\<forall>r\<in>set (aggregate_features df). \<forall>d. avg_amt_last_1w r = Some d \<and> d \<noteq> 0 \<longrightarrow>
     amt_ratio1 r = map_option (\<lambda>m. m / d) (avg_amt_last_10m r)
     \<and> amt_ratio2 r = map_option (\<lambda>a. a / d) (amount r)
     \<and> count_ratio r = Some (of_int (num_trans_last_10m r) / of_int (num_trans_last_1w r))"
proof (intro ballI allI impI)
  fix r d
  assume mem: "r \<in> set (aggregate_features df)" and d: "avg_amt_last_1w r = Some d \<and> d \<noteq> 0"
  from mem obtain x where x: "x \<in> set df" and r: "r = ratio_row (windowed_row df x)"
    unfolding in_aggregate_features by blast
  from window_counts(2) [OF x] have "1 \<le> num_trans_last_1w r"
    by (simp add: r aggregated_fields)
  then have nz: "(of_int (num_trans_last_1w r) :: rat) \<noteq> 0"
    by simp
  have 1: "amt_ratio1 r = map_option (\<lambda>m. m / d) (avg_amt_last_10m r)"
    using d by (cases "avg_amt_last_10m r") (simp_all add: r ratio_fields)
  have 2: "amt_ratio2 r = map_option (\<lambda>a. a / d) (amount r)"
    using d by (cases "amount r") (simp_all add: r ratio_fields)
  have 3: "count_ratio r = Some (of_int (num_trans_last_10m r) / of_int (num_trans_last_1w r))"
    using nz by (simp add: r ratio_fields)
  from 1 2 3 show "amt_ratio1 r = map_option (\<lambda>m. m / d) (avg_amt_last_10m r)
     \<and> amt_ratio2 r = map_option (\<lambda>a. a / d) (amount r)
     \<and> count_ratio r = Some (of_int (num_trans_last_10m r) / of_int (num_trans_last_1w r))"
    by simp
qed

theorem ratio_identities_witness:
  "aggregate_features example_partition ! 2 \<in> set (aggregate_features example_partition)
   \<and> avg_amt_last_1w (aggregate_features example_partition ! 2) = Some 20 \<and> (20 :: rat) \<noteq> 0
   \<and> amt_ratio1 (aggregate_features example_partition ! 2) = Some (25 / 20)
   \<and> amt_ratio2 (aggregate_features example_partition ! 2) = Some (30 / 20)
   \<and> count_ratio (aggregate_features example_partition ! 2) = Some (2 / 3)"
proof -
  let ?r = "aggregate_features example_partition ! 2"
  have m: "?r \<in> set (aggregate_features example_partition)"
    by (rule nth_mem) (simp add: length_aggregate_features example_partition_def)
  have d: "avg_amt_last_1w ?r = Some 20 \<and> (20 :: rat) \<noteq> 0"
    by code_simp
  have v: "avg_amt_last_10m ?r = Some 25" "amount ?r = Some 30"
    "num_trans_last_10m ?r = 2" "num_trans_last_1w ?r = 3"
    by code_simp+
  from ratio_identities [of example_partition] m d
  have "amt_ratio1 ?r = map_option (\<lambda>m. m / 20) (avg_amt_last_10m ?r)
     \<and> amt_ratio2 ?r = map_option (\<lambda>a. a / 20) (amount ?r)
     \<and> count_ratio ?r = Some (of_int (num_trans_last_10m ?r) / of_int (num_trans_last_1w ?r))"
    by blast
  with m d show ?thesis
    by (simp add: v)
qed

text \<open>
  C3. For a record with a timestamp whose one-week window holds amounts only, the count
  and the average over ten minutes are the number and the arithmetic mean of the amounts
  of the records of the same card whose time lies in the closed interval from ten minutes
  before the record's time to that time, and likewise over one week. For one card with
  payments of 10, 20 and 30 at 10:00, 10:05 and 10:15, the row of 10:15 has a
  ten-minute count of 2 and a ten-minute average of 25.
\<close>

theorem windows_are_closed_intervals:
  "(\<forall>df i t a.
      i < length df \<and> datetime (df ! i) = Some t
      \<and> (\<forall>j\<in>spec_window INTERVAL_1_WEEK df i. amount (df ! j) = Some (a j)) \<longrightarrow>
      num_trans_last_10m (aggregate_features df ! i)
        = int (card (spec_window INTERVAL_10_MINUTE df i))
      \<and> avg_amt_last_10m (aggregate_features df ! i)
        = Some ((\<Sum>j\<in>spec_window INTERVAL_10_MINUTE df i. a j)
                / of_nat (card (spec_window INTERVAL_10_MINUTE df i)))
      \<and> num_trans_last_1w (aggregate_features df ! i)
        = int (card (spec_window INTERVAL_1_WEEK df i))
      \<and> avg_amt_last_1w (aggregate_features df ! i)
        = Some ((\<Sum>j\<in>spec_window INTERVAL_1_WEEK df i. a j)
                / of_nat (card (spec_window INTERVAL_1_WEEK df i))))
   \<and> num_trans_last_10m (aggregate_features example_partition ! 2) = 2
   \<and> avg_amt_last_10m (aggregate_features example_partition ! 2) = Some 25"
proof (intro conjI allI impI)
  fix df :: "transaction list" and i t and a :: "nat \<Rightarrow> rat"
  assume h: "i < length df \<and> datetime (df ! i) = Some t
      \<and> (\<forall>j\<in>spec_window INTERVAL_1_WEEK df i. amount (df ! j) = Some (a j))"
  then have i: "i < length df" and t: "datetime (df ! i) = Some t"
    and long: "\<forall>j\<in>spec_window INTERVAL_1_WEEK df i. amount (df ! j) = Some (a j)"
    by simp_all
  have "spec_window INTERVAL_10_MINUTE df i \<subseteq> spec_window INTERVAL_1_WEEK df i"
    by (rule spec_window_mono) (simp add: INTERVAL_10_MINUTE_def INTERVAL_1_WEEK_def)
  with long have short: "\<forall>j\<in>spec_window INTERVAL_10_MINUTE df i. amount (df ! j) = Some (a j)"
    by blast
  have w10: "0 \<le> INTERVAL_10_MINUTE" and w1w: "0 \<le> INTERVAL_1_WEEK"
    by (simp_all add: INTERVAL_10_MINUTE_def INTERVAL_1_WEEK_def)
  show "num_trans_last_10m (aggregate_features df ! i)
        = int (card (spec_window INTERVAL_10_MINUTE df i))"
    using window_count_and_mean(1) [OF i t w10 short]
    by (simp add: aggregate_features_nth [OF i] aggregated_fields)
  show "avg_amt_last_10m (aggregate_features df ! i)
        = Some ((\<Sum>j\<in>spec_window INTERVAL_10_MINUTE df i. a j)
                / of_nat (card (spec_window INTERVAL_10_MINUTE df i)))"
    using window_count_and_mean(2) [OF i t w10 short]
    by (simp add: aggregate_features_nth [OF i] aggregated_fields)
  show "num_trans_last_1w (aggregate_features df ! i)
        = int (card (spec_window INTERVAL_1_WEEK df i))"
    using window_count_and_mean(1) [OF i t w1w long]
    by (simp add: aggregate_features_nth [OF i] aggregated_fields)
  show "avg_amt_last_1w (aggregate_features df ! i)
        = Some ((\<Sum>j\<in>spec_window INTERVAL_1_WEEK df i. a j)
                / of_nat (card (spec_window INTERVAL_1_WEEK df i)))"
    using window_count_and_mean(2) [OF i t w1w long]
    by (simp add: aggregate_features_nth [OF i] aggregated_fields)
next
  show "num_trans_last_10m (aggregate_features example_partition ! 2) = 2"
    by code_simp
  show "avg_amt_last_10m (aggregate_features example_partition ! 2) = Some 25"
    by code_simp
qed

theorem windows_are_closed_intervals_witness:
  "2 < length example_partition \<and> datetime (example_partition ! 2) = Some 36900000000
   \<and> spec_window INTERVAL_1_WEEK example_partition 2 = {0, 1, 2}
   \<and> spec_window INTERVAL_10_MINUTE example_partition 2 = {1, 2}
   \<and> amount (example_partition ! 0) = Some ([10, 20, 30] ! 0)
   \<and> amount (example_partition ! 1) = Some ([10, 20, 30] ! 1)
   \<and> amount (example_partition ! 2) = Some ([10, 20, 30] ! 2)
   \<and> num_trans_last_10m (aggregate_features example_partition ! 2) = int (card {1, 2 :: nat})
   \<and> avg_amt_last_10m (aggregate_features example_partition ! 2)
       = Some ((\<Sum>j\<in>{1, 2 :: nat}. [10, 20, 30] ! j) / of_nat (card {1, 2 :: nat}))
   \<and> num_trans_last_1w (aggregate_features example_partition ! 2) = 3
   \<and> avg_amt_last_1w (aggregate_features example_partition ! 2) = Some 20"
proof -
  have h: "2 < length example_partition \<and> datetime (example_partition ! 2) = Some 36900000000
     \<and> (\<forall>j\<in>spec_window INTERVAL_1_WEEK example_partition 2.
          amount (example_partition ! j) = Some ([10, 20, 30] ! j))"
    unfolding example_spec_window_long by (simp add: example_partition_def)
  from windows_are_closed_intervals h
  have "num_trans_last_10m (aggregate_features example_partition ! 2)
        = int (card (spec_window INTERVAL_10_MINUTE example_partition 2))
      \<and> avg_amt_last_10m (aggregate_features example_partition ! 2)
        = Some ((\<Sum>j\<in>spec_window INTERVAL_10_MINUTE example_partition 2. [10, 20, 30] ! j)
                / of_nat (card (spec_window INTERVAL_10_MINUTE example_partition 2)))
      \<and> num_trans_last_1w (aggregate_features example_partition ! 2)
        = int (card (spec_window INTERVAL_1_WEEK example_partition 2))
      \<and> avg_amt_last_1w (aggregate_features example_partition ! 2)
        = Some ((\<Sum>j\<in>spec_window INTERVAL_1_WEEK example_partition 2. [10, 20, 30] ! j)
                / of_nat (card (spec_window INTERVAL_1_WEEK example_partition 2)))"
    by blast
  moreover have "amount (example_partition ! 0) = Some ([10, 20, 30] ! 0)
    \<and> amount (example_partition ! 1) = Some ([10, 20, 30] ! 1)
    \<and> amount (example_partition ! 2) = Some ([10, 20, 30] ! 2)"
    by (simp add: example_partition_def)
  ultimately show ?thesis
    using h by (simp add: example_spec_window_short example_spec_window_long)
qed

section \<open>The latest rows\<close>

text \<open>
  C1, as the code has it. The rows kept are the rows of rank one: every card of the
  input has a row in the output, every row of the output is the projection of a record
  that no record of its card is later than, a card of which one record alone has the
  latest time has exactly one row, and on the rows of the query all the rows of one card
  are equal. No order of the input breaks a tie.
\<close>

theorem latest_rows_of_every_card:
  "fst ` set (group_by_card_number df) = cc_num ` set df
   \<and> (\<forall>s\<in>set (group_by_card_number df). \<exists>r\<in>set df. s = slice r \<and> latest df r)
   \<and> (\<forall>k. length (filter (\<lambda>r. cc_num r = k \<and> latest df r) df) = 1
           \<longrightarrow> length (rows_for_key k (group_by_card_number df)) = 1)
   \<and> (\<forall>txs. \<forall>s\<in>set (group_by_card_number (aggregate_features txs)).
             \<forall>s'\<in>set (group_by_card_number (aggregate_features txs)).
               fst s = fst s' \<longrightarrow> s = s')"
proof (intro conjI allI ballI impI)
  show "fst ` set (group_by_card_number df) = cc_num ` set df"
    by (rule keys_of_group_by_card_number)
next
  fix s assume "s \<in> set (group_by_card_number df)"
  then show "\<exists>r\<in>set df. s = slice r \<and> latest df r"
    unfolding in_group_by_card_number by blast
next
  fix k
  assume "length (filter (\<lambda>r. cc_num r = k \<and> latest df r) df) = 1"
  then show "length (rows_for_key k (group_by_card_number df)) = 1"
    by (simp add: rows_for_key_count)
next
  fix txs s s'
  assume s: "s \<in> set (group_by_card_number (aggregate_features txs))"
    and s': "s' \<in> set (group_by_card_number (aggregate_features txs))"
    and k: "fst s = fst s'"
  from s obtain r where r: "r \<in> set (aggregate_features txs)"
    and lr: "latest (aggregate_features txs) r" and sr: "s = slice r"
    unfolding in_group_by_card_number by blast
  from s' obtain r' where r': "r' \<in> set (aggregate_features txs)"
    and lr': "latest (aggregate_features txs) r'" and sr': "s' = slice r'"
    unfolding in_group_by_card_number by blast
  from k have "cc_num r = cc_num r'"
    by (simp add: sr sr' slice_def)
  from latest_rows_agree [OF r r' lr lr' this] show "s = s'"
    by (simp add: sr sr')
qed

text \<open>
  On the three payments of one card, the one row of the output is the projection of the
  payment of 10:15, and the card has one row because one record has the latest time.
\<close>

theorem latest_rows_of_every_card_witness:
  "(Some 4006080197832643, 3, Some 20)
     \<in> set (group_by_card_number (aggregate_features example_partition))
   \<and> (Some 4006080197832643, 3, Some 20) = slice (aggregate_features example_partition ! 2)
   \<and> latest (aggregate_features example_partition) (aggregate_features example_partition ! 2)
   \<and> length (filter (\<lambda>r. cc_num r = Some 4006080197832643
                          \<and> latest (aggregate_features example_partition) r)
                (aggregate_features example_partition)) = 1
   \<and> length (rows_for_key (Some 4006080197832643)
               (group_by_card_number (aggregate_features example_partition))) = 1
   \<and> group_by_card_number (aggregate_features example_partition)
       = [(Some 4006080197832643, 3, Some 20)]"
proof -
  let ?df = "aggregate_features example_partition"
  have out: "group_by_card_number ?df = [(Some 4006080197832643, 3, Some 20)]"
    by code_simp
  have m: "(Some 4006080197832643, 3, Some 20) \<in> set (group_by_card_number ?df)"
    by (simp add: out)
  have sl: "(Some 4006080197832643, 3, Some 20) = slice (?df ! 2)"
    by code_simp
  have la: "latest ?df (?df ! 2)"
    by code_simp
  have one: "length (filter (\<lambda>r. cc_num r = Some 4006080197832643 \<and> latest ?df r) ?df) = 1"
    by code_simp
  from latest_rows_of_every_card [of ?df] one
  have "length (rows_for_key (Some 4006080197832643) (group_by_card_number ?df)) = 1"
    by blast
  then show ?thesis
    using m sl la out one by simp
qed

text \<open>
  Two payments of one card at the same time: one card in the input, two rows in the
  output.
\<close>

theorem tied_latest_rows_counterexample:
  "remdups (map cc_num tied_transactions) = [Some 7]
   \<and> group_by_card_number (aggregate_features tied_transactions)
       = [(Some 7, 2, Some 15), (Some 7, 2, Some 15)]"
proof
  show "remdups (map cc_num tied_transactions) = [Some 7]"
    by (simp add: tied_transactions_def)
  show "group_by_card_number (aggregate_features tied_transactions)
       = [(Some 7, 2, Some 15), (Some 7, 2, Some 15)]"
    by code_simp
qed

text \<open>
  C6, as the code has it. When the weekly average of a row is exactly zero, the two
  ratios that divide by it are NULL, not an infinity and not a NaN, and the ratio of the
  counts is a number. The row carries no flag, and it stays a candidate of the latest
  rows: when no record of its card is later, its projection is in the output.
\<close>

theorem zero_denominator_gives_null_and_stays:
  "\<forall>r\<in>set (aggregate_features df). avg_amt_last_1w r = Some 0 \<longrightarrow>
     amt_ratio1 r = None \<and> amt_ratio2 r = None \<and> count_ratio r \<noteq> None
     \<and> (latest (aggregate_features df) r
          \<longrightarrow> slice r \<in> set (group_by_card_number (aggregate_features df)))"
proof (intro ballI impI conjI)
  fix r
  assume mem: "r \<in> set (aggregate_features df)" and z: "avg_amt_last_1w r = Some 0"
  from mem obtain x where x: "x \<in> set df" and r: "r = ratio_row (windowed_row df x)"
    unfolding in_aggregate_features by blast
  from z show "amt_ratio1 r = None"
    by (cases "avg_amt_last_10m r") (simp_all add: r ratio_fields)
  from z show "amt_ratio2 r = None"
    by (cases "amount r") (simp_all add: r ratio_fields)
  from window_counts(2) [OF x] have "(of_int (num_trans_last_1w r) :: rat) \<noteq> 0"
    by (simp add: r aggregated_fields)
  then show "count_ratio r \<noteq> None"
    by (simp add: r ratio_fields)
  assume "latest (aggregate_features df) r"
  with mem show "slice r \<in> set (group_by_card_number (aggregate_features df))"
    unfolding in_group_by_card_number by blast
qed

theorem zero_denominator_gives_null_and_stays_witness:
  "aggregate_features zero_amount_transactions ! 0 \<in> set (aggregate_features zero_amount_transactions)
   \<and> avg_amt_last_1w (aggregate_features zero_amount_transactions ! 0) = Some 0
   \<and> latest (aggregate_features zero_amount_transactions)
        (aggregate_features zero_amount_transactions ! 0)
   \<and> amt_ratio1 (aggregate_features zero_amount_transactions ! 0) = None
   \<and> amt_ratio2 (aggregate_features zero_amount_transactions ! 0) = None
   \<and> count_ratio (aggregate_features zero_amount_transactions ! 0) \<noteq> None
   \<and> slice (aggregate_features zero_amount_transactions ! 0)
       \<in> set (group_by_card_number (aggregate_features zero_amount_transactions))"
proof -
  let ?df = "aggregate_features zero_amount_transactions"
  have m: "?df ! 0 \<in> set ?df"
    by (rule nth_mem) (simp add: length_aggregate_features zero_amount_transactions_def)
  have z: "avg_amt_last_1w (?df ! 0) = Some 0"
    by code_simp
  have l: "latest ?df (?df ! 0)"
    by code_simp
  from zero_denominator_gives_null_and_stays [of zero_amount_transactions] m z l
  have "amt_ratio1 (?df ! 0) = None \<and> amt_ratio2 (?df ! 0) = None
        \<and> count_ratio (?df ! 0) \<noteq> None \<and> slice (?df ! 0) \<in> set (group_by_card_number ?df)"
    by blast
  with m z l show ?thesis
    by simp
qed

text \<open>
  A card whose one payment is of nothing: the weekly average of its row is zero, its
  ratios are NULL, and the row is the latest row of the card in the output.
\<close>

theorem zero_denominator_counterexample:
  "avg_amt_last_1w (aggregate_features zero_amount_transactions ! 0) = Some 0
   \<and> amt_ratio1 (aggregate_features zero_amount_transactions ! 0) = None
   \<and> group_by_card_number (aggregate_features zero_amount_transactions) = [(Some 7, 1, Some 0)]"
  by code_simp

section \<open>The sink\<close>




text \<open>
  C7, as the code has it. For a batch without transactions the sink hands nothing to the
  store, and the run ends in an assertion error, since no record was accepted and the
  sink asserts 10000.
\<close>

theorem empty_batch_fails_assertion:
  "sent (fst (write_to_feature_store w [])) = []
   \<and> snd (write_to_feature_store w []) = Inl AssertionError
   \<and> run_spark_job w str_round2 [] = (\<lparr>success = 0, fail = 0, sent = []\<rparr>, Inl AssertionError)"
  by (simp add: write_to_feature_store_def run_spark_job_def aggregate_features_def
      group_by_card_number_def TOTAL_UNIQUE_USERS_def)

theorem empty_batch_counterexample:
  "run_spark_job accepting_store ideal_str_round2 []
   = (\<lparr>success = 0, fail = 0, sent = []\<rparr>, Inl AssertionError)"
  by code_simp

text \<open>
  C9. To every record that \<^verbatim>\<open>transform_row\<close> built, the sink appends one entry named
  \<^verbatim>\<open>trans_time\<close> before it hands the record to the store: the record handed over is the
  record built followed by that entry, it has no other entry of that name, and the value
  of the entry is the decimal string of the integer nearest to the clock's seconds at
  that pass. Every value of an entry is a string, by the type of \<open>ValueAsString\<close>.
\<close>

theorem sink_appends_one_trans_time:
  "transform_row f rows = Inr records \<longrightarrow>
     length (sent (fst (write_to_feature_store w records))) = length records
     \<and> (\<forall>i<length records.
           sent (fst (write_to_feature_store w records)) ! i
             = records ! i
               @ [\<lparr>ValueAsString = str_int (py_round (time_time w i)),
                   FeatureName = ''trans_time''\<rparr>]
           \<and> length (filter (\<lambda>x. FeatureName x = ''trans_time'')
                       (sent (fst (write_to_feature_store w records)) ! i)) = 1
           \<and> \<bar>of_int (py_round (time_time w i)) - time_time w i\<bar> \<le> 1 / 2)"
proof (intro impI conjI allI)
  assume t: "transform_row f rows = Inr records"
  show "length (sent (fst (write_to_feature_store w records))) = length records"
    by (simp add: write_to_feature_store_sent)
  fix i assume i: "i < length records"
  show "sent (fst (write_to_feature_store w records)) ! i
        = records ! i
          @ [\<lparr>ValueAsString = str_int (py_round (time_time w i)), FeatureName = ''trans_time''\<rparr>]"
    by (simp add: sent_nth [OF i] event_time_feature_def)
  from i have "records ! i \<in> set records"
    by simp
  from transform_row_records [OF t this] obtain k n a where "records ! i = new_record f k n a"
    by blast
  then show "length (filter (\<lambda>x. FeatureName x = ''trans_time'')
                       (sent (fst (write_to_feature_store w records)) ! i)) = 1"
    by (simp add: sent_nth [OF i] trans_time_not_in_new_record event_time_feature_def)
  show "\<bar>of_int (py_round (time_time w i)) - time_time w i\<bar> \<le> 1 / 2"
    by (rule py_round_near)
qed

theorem sink_appends_one_trans_time_witness:
  "transform_row ideal_str_round2 example_sliced_rows
     = Inr [[\<lparr>ValueAsString = ''7'', FeatureName = ''cc_num''\<rparr>,
             \<lparr>ValueAsString = ''1'', FeatureName = ''num_trans_last_1w''\<rparr>,
             \<lparr>ValueAsString = ''10.0'', FeatureName = ''avg_amt_last_1w''\<rparr>]]
   \<and> sent (fst (write_to_feature_store accepting_store
        [[\<lparr>ValueAsString = ''7'', FeatureName = ''cc_num''\<rparr>,
          \<lparr>ValueAsString = ''1'', FeatureName = ''num_trans_last_1w''\<rparr>,
          \<lparr>ValueAsString = ''10.0'', FeatureName = ''avg_amt_last_1w''\<rparr>]])) ! 0
     = [\<lparr>ValueAsString = ''7'', FeatureName = ''cc_num''\<rparr>,
        \<lparr>ValueAsString = ''1'', FeatureName = ''num_trans_last_1w''\<rparr>,
        \<lparr>ValueAsString = ''10.0'', FeatureName = ''avg_amt_last_1w''\<rparr>,
        \<lparr>ValueAsString = ''1619447230'', FeatureName = ''trans_time''\<rparr>]"
proof -
  let ?records = "[[\<lparr>ValueAsString = ''7'', FeatureName = ''cc_num''\<rparr>,
                    \<lparr>ValueAsString = ''1'', FeatureName = ''num_trans_last_1w''\<rparr>,
                    \<lparr>ValueAsString = ''10.0'', FeatureName = ''avg_amt_last_1w''\<rparr>]]"
  have t: "transform_row ideal_str_round2 example_sliced_rows = Inr ?records"
    by code_simp
  have i: "0 < length ?records"
    by simp
  from sink_appends_one_trans_time [of ideal_str_round2 example_sliced_rows ?records accepting_store]
    t i
  have "sent (fst (write_to_feature_store accepting_store ?records)) ! 0
        = ?records ! 0
          @ [\<lparr>ValueAsString = str_int (py_round (time_time accepting_store 0)),
              FeatureName = ''trans_time''\<rparr>]"
    by blast
  moreover have "\<lparr>ValueAsString = str_int (py_round (time_time accepting_store 0)),
                  FeatureName = ''trans_time''\<rparr>
                 = \<lparr>ValueAsString = ''1619447230'', FeatureName = ''trans_time''\<rparr>"
    using accepting_store_time [of 0] by (simp add: event_time_feature_def)
  ultimately show ?thesis
    using t by simp
qed

text \<open>
  C10. \<^verbatim>\<open>transform_row\<close> passes over every latest row whose card number is NULL or zero
  without an error, whatever its other columns hold: its result is its result on the
  rows with another card number, a row with such a card number can be taken out of the
  input without a change, and it returns exactly when every row with another card
  number has an average. When it returns, it has built one record for each row with
  another card number and none for the rest, every record it built is of a row with a
  card number other than zero, the sink counts one answer for each of these records
  only, and no record handed to the store, in any run of the job, has the card number 0.
\<close>

theorem falsy_keys_are_skipped:
  "transform_row f rows = transform_row f (filter (\<lambda>row. truthy (fst row)) rows)
   \<and> (\<not> truthy cc \<longrightarrow>
        transform_row f (rows1 @ (cc, n0, avg) # rows2) = transform_row f (rows1 @ rows2))
   \<and> ((\<exists>records. transform_row f rows = Inr records)
       = (filter (\<lambda>row. truthy (fst row) \<and> snd (snd row) = None) rows = []))
   \<and> (transform_row f rows = Inr records \<longrightarrow>
      length records = length (filter (\<lambda>row. truthy (fst row)) rows)
      \<and> (\<forall>rec\<in>set records.
            \<exists>k n a. k \<noteq> 0 \<and> (Some k, n, Some a) \<in> set rows \<and> rec = new_record f k n a)
      \<and> success (fst (write_to_feature_store w records))
        + fail (fst (write_to_feature_store w records))
        = int (length (filter (\<lambda>row. truthy (fst row)) rows))
      \<and> length (sent (fst (write_to_feature_store w records)))
        = length (filter (\<lambda>row. truthy (fst row)) rows))
   \<and> (\<forall>rec\<in>set (sent (fst (run_spark_job w f df))).
         \<lparr>ValueAsString = ''0'', FeatureName = ''cc_num''\<rparr> \<notin> set rec)"
proof (intro conjI impI ballI)
  show "transform_row f rows = transform_row f (filter (\<lambda>row. truthy (fst row)) rows)"
    by (rule transform_row_filter)
next
  assume "\<not> truthy cc"
  then have "filter (\<lambda>row. truthy (fst row)) (rows1 @ (cc, n0, avg) # rows2)
             = filter (\<lambda>row. truthy (fst row)) (rows1 @ rows2)"
    by simp
  then show "transform_row f (rows1 @ (cc, n0, avg) # rows2) = transform_row f (rows1 @ rows2)"
    using transform_row_filter [of f "rows1 @ (cc, n0, avg) # rows2"]
      transform_row_filter [of f "rows1 @ rows2"]
    by (simp only:)
next
  show "(\<exists>records. transform_row f rows = Inr records)
       = (filter (\<lambda>row. truthy (fst row) \<and> snd (snd row) = None) rows = [])"
    by (rule transform_row_returns)
next
  assume t: "transform_row f rows = Inr records"
  show len: "length records = length (filter (\<lambda>row. truthy (fst row)) rows)"
    by (rule transform_row_length [OF t])
  show "success (fst (write_to_feature_store w records))
        + fail (fst (write_to_feature_store w records))
        = int (length (filter (\<lambda>row. truthy (fst row)) rows))"
    by (simp add: write_to_feature_store_counts(1) len)
  show "length (sent (fst (write_to_feature_store w records)))
        = length (filter (\<lambda>row. truthy (fst row)) rows)"
    by (simp add: write_to_feature_store_sent len)
  fix rec assume "rec \<in> set records"
  from transform_row_records [OF t this]
  show "\<exists>k n a. k \<noteq> 0 \<and> (Some k, n, Some a) \<in> set rows \<and> rec = new_record f k n a" .
next
  fix rec assume rec: "rec \<in> set (sent (fst (run_spark_job w f df)))"
  let ?rows = "group_by_card_number (aggregate_features df)"
  show "\<lparr>ValueAsString = ''0'', FeatureName = ''cc_num''\<rparr> \<notin> set rec"
  proof (cases "transform_row f ?rows")
    case (Inl e)
    with rec show ?thesis
      by (simp add: run_spark_job_def Let_def)
  next
    case (Inr records)
    with rec have "rec \<in> set (sent (fst (write_to_feature_store w records)))"
      by (simp add: run_spark_job_def Let_def)
    then obtain j where j: "j < length records"
      and r: "rec = records ! j @ [event_time_feature w j]"
      unfolding in_sent by blast
    from j have "records ! j \<in> set records"
      by simp
    from transform_row_records [OF Inr this] obtain k n a where
      "k \<noteq> 0" "records ! j = new_record f k n a"
      by blast
    then show ?thesis
      using zero_key_not_in_new_record [of k f n a]
      by (simp add: r event_time_feature_def)
  qed
qed

text \<open>
  Latest rows of the cards 7, 0 and NULL, the last two without an average: the result is
  the one record of card 7, the rows of the cards 0 and NULL alone give no record and no
  error, and the sink counts one answer.
\<close>

theorem falsy_keys_are_skipped_witness:
  "transform_row ideal_str_round2 example_sliced_rows = Inr example_records
   \<and> example_sliced_rows = [(Some 7, 1, Some 10)] @ (Some 0, 5, None) # [(None, 2, None)]
   \<and> \<not> truthy (Some 0)
   \<and> transform_row ideal_str_round2 ([(Some 7, 1, Some 10)] @ [(None, 2, None)])
       = Inr example_records
   \<and> transform_row ideal_str_round2 [(Some 0, 5, None), (None, 2, None)] = Inr []
   \<and> length example_sliced_rows = 3
   \<and> length (filter (\<lambda>row. truthy (fst row)) example_sliced_rows) = 1
   \<and> success (fst (write_to_feature_store accepting_store example_records))
     + fail (fst (write_to_feature_store accepting_store example_records)) = 1"
proof -
  have t: "transform_row ideal_str_round2 example_sliced_rows = Inr example_records"
    by code_simp
  have e: "example_sliced_rows = [(Some 7, 1, Some 10)] @ (Some 0, 5, None) # [(None, 2, None)]"
    by (simp add: example_sliced_rows_def)
  have z: "\<not> truthy (Some 0)"
    by simp
  have n: "length example_sliced_rows = 3"
    "length (filter (\<lambda>row. truthy (fst row)) example_sliced_rows) = 1"
    by (simp_all add: example_sliced_rows_def)
  from falsy_keys_are_skipped
    [of ideal_str_round2 example_sliced_rows "Some 0" "[(Some 7, 1, Some 10)]" 5 None
      "[(None, 2, None)]" example_records accepting_store]
    t z
  have s: "success (fst (write_to_feature_store accepting_store example_records))
        + fail (fst (write_to_feature_store accepting_store example_records))
        = int (length (filter (\<lambda>row. truthy (fst row)) example_sliced_rows))"
    and eq: "transform_row ideal_str_round2
               ([(Some 7, 1, Some 10)] @ (Some 0, 5, None) # [(None, 2, None)])
         = transform_row ideal_str_round2 ([(Some 7, 1, Some 10)] @ [(None, 2, None)])"
    by blast+
  from t have "transform_row ideal_str_round2
                 ([(Some 7, 1, Some 10)] @ (Some 0, 5, None) # [(None, 2, None)])
               = Inr example_records"
    by (simp only: e)
  with eq have t2: "transform_row ideal_str_round2 ([(Some 7, 1, Some 10)] @ [(None, 2, None)])
                    = Inr example_records"
    by (simp only:)
  have t3: "transform_row ideal_str_round2 [(Some 0, 5, None), (None, 2, None)] = Inr []"
    by simp
  from s n(2) have s1: "success (fst (write_to_feature_store accepting_store example_records))
     + fail (fst (write_to_feature_store accepting_store example_records)) = 1"
    by simp
  show ?thesis
    by (intro conjI) (rule t e z t2 t3 n s1)+
qed

end
